theory Spec2Isabelle
  imports Main
begin

section \<open>The state classifier\<close>

text \<open>
  The source, \<^verbatim>\<open>src/async-stores/index.ts\<close>, lines 28 to 38:
  \<^verbatim>\<open>
  const getLoadState = (stateString: State): LoadState => {
    return {
      isLoading: stateString === 'LOADING',
      isReloading: stateString === 'RELOADING',
      isLoaded: stateString === 'LOADED',
      isWriting: stateString === 'WRITING',
      isError: stateString === 'ERROR',
      isPending: stateString === 'LOADING' || stateString === 'RELOADING',
      isSettled: stateString === 'LOADED' || stateString === 'ERROR',
    };
  };
  \<close>
  At run time the argument is a string; the type \<^verbatim>\<open>State\<close> only restricts what a
  type-checked caller can pass. The body is seven strict comparisons and an object
  literal: nothing in it can throw, so the embedding is a total function on strings.
  Only equality of strings is used, so any one-to-one encoding of JavaScript strings as
  \<open>string\<close> gives the same flags.
\<close>

record LoadState =
  isLoading :: bool
  isReloading :: bool
  isLoaded :: bool
  isWriting :: bool
  isError :: bool
  isPending :: bool
  isSettled :: bool

definition getLoadState :: "string \<Rightarrow> LoadState" where
  "getLoadState stateString =
     \<lparr> isLoading = (stateString = ''LOADING''),
       isReloading = (stateString = ''RELOADING''),
       isLoaded = (stateString = ''LOADED''),
       isWriting = (stateString = ''WRITING''),
       isError = (stateString = ''ERROR''),
       isPending = (stateString = ''LOADING'' \<or> stateString = ''RELOADING''),
       isSettled = (stateString = ''LOADED'' \<or> stateString = ''ERROR'') \<rparr>"

text \<open>
  Modelled from the spec: the type \<^verbatim>\<open>State\<close> is declared in \<^verbatim>\<open>types.js\<close>, which is
  not among the sources. The spec lists its five tags (section 3); \<open>tag\<close> gives the
  string each one is at run time.
\<close>

datatype State = LOADING | RELOADING | LOADED | WRITING | ERROR

fun tag :: "State \<Rightarrow> string" where
  "tag LOADING = ''LOADING''"
| "tag RELOADING = ''RELOADING''"
| "tag LOADED = ''LOADED''"
| "tag WRITING = ''WRITING''"
| "tag ERROR = ''ERROR''"

definition stateTags :: "string list" where
  "stateTags = map tag [LOADING, RELOADING, LOADED, WRITING, ERROR]"

definition baseFlags :: "LoadState \<Rightarrow> bool list" where
  "baseFlags r = [isLoading r, isReloading r, isLoaded r, isWriting r, isError r]"

definition count_true :: "bool list \<Rightarrow> nat" where
  "count_true bs = length (filter (\<lambda>b. b) bs)"

section \<open>JavaScript values, results and promises\<close>

text \<open>
  The values this file passes around without inspecting their type: dependency values,
  loaded values, thrown values and the members of a store object. An object (a function
  is one too) is the list of the values its property reads return, in insertion order.
\<close>

datatype js_value =
    JSUndefined
  | JSNull
  | JSBool bool
  | JSNum int
  | JSStr string
  | JSObj "(string \<times> js_value) list"

text \<open>A call either returns or throws.\<close>

datatype 'a outcome = Returns 'a | Throws js_value

text \<open>
  What awaiting a call gives: the value it returned or its promise was fulfilled with,
  the value it threw or its promise was rejected with, or nothing when the promise never
  settles.
\<close>

datatype 'a promise = Fulfilled 'a | Rejected js_value | Pending

fun lookup :: "(string \<times> js_value) list \<Rightarrow> string \<Rightarrow> js_value" where
  "lookup [] k = JSUndefined"
| "lookup ((k', v) # ps) k = (if k' = k then v else lookup ps k)"

text \<open>
  Reading a property of a value that is neither \<^verbatim>\<open>undefined\<close> nor \<^verbatim>\<open>null\<close>. The names
  read in this file (\<^verbatim>\<open>name\<close>, \<^verbatim>\<open>store\<close>, \<^verbatim>\<open>subscribe\<close>, \<^verbatim>\<open>load\<close>, \<^verbatim>\<open>reload\<close>,
  \<^verbatim>\<open>state\<close>, \<^verbatim>\<open>reset\<close>, \<^verbatim>\<open>set\<close>, \<^verbatim>\<open>update\<close>) are no properties of a boolean, a
  number or a string, so a primitive answers \<^verbatim>\<open>undefined\<close>.
\<close>

fun member :: "js_value \<Rightarrow> string \<Rightarrow> js_value" where
  "member (JSObj ps) k = lookup ps k"
| "member v k = JSUndefined"

definition nullish :: "js_value \<Rightarrow> bool" where
  "nullish v = (v = JSUndefined \<or> v = JSNull)"

definition TypeError :: js_value where
  "TypeError = JSObj [(''name'', JSStr ''TypeError'')]"

text \<open>
  The expression \<^verbatim>\<open>v.k\<close>, and each property of a destructuring pattern: reading a
  property of \<^verbatim>\<open>undefined\<close> or \<^verbatim>\<open>null\<close> throws a TypeError.
\<close>

definition getProp :: "js_value \<Rightarrow> string \<Rightarrow> js_value outcome" where
  "getProp v k = (if nullish v then Throws TypeError else Returns (member v k))"

fun truthy :: "js_value \<Rightarrow> bool" where
  "truthy JSUndefined = False"
| "truthy JSNull = False"
| "truthy (JSBool b) = b"
| "truthy (JSNum n) = (n \<noteq> 0)"
| "truthy (JSStr s) = (s \<noteq> [])"
| "truthy (JSObj ps) = True"

section \<open>The container built by asyncWritable\<close>

text \<open>
  The source, lines 56 to 105 (the doc comment left out):
  \<^verbatim>\<open>
  export const asyncWritable = <S extends Stores, T>(
    stores: S,
    mappingLoadFunction: (values: StoresValues<S>) => Promise<T> | T,
    mappingWriteFunction?: (
      value: T, parentValues?: StoresValues<S>, oldValue?: T
    ) => Promise<void | T>,
    options: AsyncStoreOptions<T> = {}
  ): WritableLoadable<T> => {
    flagStoreCreated();
    const { reloadable, trackState, initial } = options;

    const loadState = trackState
      ? writable<LoadState>(getLoadState('LOADING'))
      : undefined;
    const setState = (state: State) => loadState?.set(getLoadState(state));

    // flag marking whether store is ready for updates from subscriptions
    let ready = false;

    // most recent call of mappingLoadFunction, including resulting side effects
    // (updating store value, tracking state, etc)
    let currentLoadPromise: Promise<T>;

    let latestLoadAndSet: () => Promise<T>;

    const tryLoadValue = async (values: StoresValues<S>) => {
      try {
        return await mappingLoadFunction(values);
      } catch (e) {
        if (e.name !== 'AbortError') {
          logError(e);
          setState('ERROR');
        }
        throw e;
      }
    };

    const loadThenSet = async (set) => {};

    const onFirstSubscribtion: StartStopNotifier<T> = async (set) => {
      (async () => {
        const values = await loadAll(stores);
        ready = true;
        tryLoadValue(values);
      })();
      const values = await loadAll();
    };
  };
  \<close>
  The body ends there: it has no \<^verbatim>\<open>return\<close>, so a call returns \<^verbatim>\<open>undefined\<close>, and
  nothing in it calls \<^verbatim>\<open>onFirstSubscribtion\<close>, \<^verbatim>\<open>tryLoadValue\<close> outside
  \<^verbatim>\<open>onFirstSubscribtion\<close>, \<^verbatim>\<open>loadThenSet\<close> or \<^verbatim>\<open>mappingWriteFunction\<close>, or assigns
  \<^verbatim>\<open>currentLoadPromise\<close> or \<^verbatim>\<open>latestLoadAndSet\<close>.

  A container is the variables of that closure which the body reads or writes, and the
  calls it has made to its collaborators, oldest first:
  \<^item> \<open>loadState\<close>: the value of the cell \<^verbatim>\<open>writable<LoadState>(...)\<close>, or \<open>None\<close> when
    the variable is \<^verbatim>\<open>undefined\<close>;
  \<^item> \<open>ready\<close> and \<open>currentLoadPromise\<close> (\<open>None\<close>: never assigned);
  \<^item> \<open>flagged\<close>: the number of calls of \<^verbatim>\<open>flagStoreCreated\<close>;
  \<^item> \<open>logged\<close>: the arguments of the calls of \<^verbatim>\<open>logError\<close>;
  \<^item> \<open>loadCalls\<close>: the arguments of the calls of \<^verbatim>\<open>mappingLoadFunction\<close>;
  \<^item> \<open>writeCalls\<close>: the first arguments of the calls of \<^verbatim>\<open>mappingWriteFunction\<close>.
\<close>

record container =
  loadState :: "LoadState option"
  ready :: bool
  currentLoadPromise :: "js_value promise option"
  flagged :: nat
  logged :: "js_value list"
  loadCalls :: "js_value list list"
  writeCalls :: "js_value list"

text \<open>
  Modelled from the spec: \<^verbatim>\<open>AsyncStoreOptions\<close> is declared in \<^verbatim>\<open>types.js\<close>, which is not
  among the sources. Section 4.5 of the spec enumerates its three options. A missing
  boolean option is \<^verbatim>\<open>undefined\<close>, which the conditional on line 69 treats as false;
  \<open>emptyOptions\<close> is the default \<^verbatim>\<open>{}\<close> of line 64.
\<close>

record AsyncStoreOptions =
  reloadable :: bool
  trackState :: bool
  initial :: js_value

definition emptyOptions :: AsyncStoreOptions where
  "emptyOptions = \<lparr> reloadable = False, trackState = False, initial = JSUndefined \<rparr>"

text \<open>
  Line 72: \<^verbatim>\<open>loadState?.set(getLoadState(state))\<close>. Without state tracking the variable
  is \<^verbatim>\<open>undefined\<close> and the call does nothing.
\<close>

definition setState :: "State \<Rightarrow> container \<Rightarrow> container" where
  "setState state c =
     c\<lparr> loadState := map_option (\<lambda>_. getLoadState (tag state)) (loadState c) \<rparr>"

text \<open>
  Modelled from the spec: \<^verbatim>\<open>logError\<close> is imported from \<^verbatim>\<open>config.js\<close>, which is not
  among the sources. Section 6 of the spec calls it the process-wide logging hook; the
  model records the error it is invoked with.
\<close>

definition logError :: "js_value \<Rightarrow> container \<Rightarrow> container" where
  "logError e c = c\<lparr> logged := logged c @ [e] \<rparr>"

text \<open>
  Lines 83 to 93. The mapping function is called at once; the rest runs when its
  promise settles. A mapping function that throws before returning a promise is caught
  by the same \<^verbatim>\<open>try\<close>, so it counts as \<open>Rejected\<close>. In the \<^verbatim>\<open>catch\<close> block the test
  \<^verbatim>\<open>e.name !== 'AbortError'\<close> reads a property of the caught value, which throws for
  \<^verbatim>\<open>undefined\<close> and \<^verbatim>\<open>null\<close>: then the block is left with that TypeError before
  \<^verbatim>\<open>logError\<close>, \<^verbatim>\<open>setState\<close> and \<^verbatim>\<open>throw e\<close> are reached. The result is what awaiting
  \<^verbatim>\<open>tryLoadValue(values)\<close> gives, with the container as the call leaves it.
\<close>

definition tryLoadValue ::
  "(js_value list \<Rightarrow> js_value promise) \<Rightarrow> js_value list \<Rightarrow> container
     \<Rightarrow> js_value promise \<times> container" where
  "tryLoadValue mappingLoadFunction vals c =
     (let c1 = c\<lparr> loadCalls := loadCalls c @ [vals] \<rparr> in
      case mappingLoadFunction vals of
        Fulfilled v \<Rightarrow> (Fulfilled v, c1)
      | Pending \<Rightarrow> (Pending, c1)
      | Rejected e \<Rightarrow>
          (case getProp e ''name'' of
             Throws err \<Rightarrow> (Rejected err, c1)
           | Returns n \<Rightarrow>
               if n \<noteq> JSStr ''AbortError''
               then (Rejected e, setState ERROR (logError e c1))
               else (Rejected e, c1)))"

text \<open>
  Lines 97 to 104. \<^verbatim>\<open>loadAll\<close> is imported from \<^verbatim>\<open>utils/index.js\<close>, not among the
  sources, so it is a parameter: what awaiting \<^verbatim>\<open>loadAll(stores)\<close> gives. When it is
  fulfilled the inner function sets \<^verbatim>\<open>ready\<close> and calls \<^verbatim>\<open>tryLoadValue\<close>, whose
  promise nobody awaits; when it is rejected or never settles the inner function stops
  at its \<^verbatim>\<open>await\<close>. The outer \<^verbatim>\<open>await loadAll()\<close> binds a constant that is never read.
  The parameter \<^verbatim>\<open>set\<close> is not used. The result is the container once the promises
  involved have settled.
\<close>

definition onFirstSubscribtion ::
  "('s \<Rightarrow> js_value list promise) \<Rightarrow> 's \<Rightarrow> (js_value list \<Rightarrow> js_value promise)
     \<Rightarrow> container \<Rightarrow> container" where
  "onFirstSubscribtion loadAll stores mappingLoadFunction c =
     (case loadAll stores of
        Fulfilled vals \<Rightarrow> snd (tryLoadValue mappingLoadFunction vals (c\<lparr> ready := True \<rparr>))
      | Rejected e \<Rightarrow> c
      | Pending \<Rightarrow> c)"

text \<open>
  The call of \<^verbatim>\<open>asyncWritable\<close> itself (lines 66 to 81, and the end of the body): the
  value it returns and the container it leaves. \<^verbatim>\<open>flagStoreCreated\<close> is imported from
  \<^verbatim>\<open>config.js\<close>; its call is counted. The options are \<open>None\<close> when the argument is
  missing or \<^verbatim>\<open>undefined\<close>.
\<close>

definition asyncWritable ::
  "'s \<Rightarrow> (js_value list \<Rightarrow> js_value promise)
     \<Rightarrow> (js_value \<Rightarrow> js_value list \<Rightarrow> js_value \<Rightarrow> js_value promise) option
     \<Rightarrow> AsyncStoreOptions option \<Rightarrow> js_value \<times> container" where
  "asyncWritable stores mappingLoadFunction mappingWriteFunction options =
     (let opts = (case options of None \<Rightarrow> emptyOptions | Some given \<Rightarrow> given) in
      (JSUndefined,
       \<lparr> loadState = (if trackState opts then Some (getLoadState (tag LOADING)) else None),
         ready = False,
         currentLoadPromise = None,
         flagged = 1,
         logged = [],
         loadCalls = [],
         writeCalls = [] \<rparr>))"

section \<open>asyncDerived\<close>

text \<open>
  The source, lines 119 to 139:
  \<^verbatim>\<open>
  export const asyncDerived = <S extends Stores, T>(
    stores: S,
    mappingLoadFunction: (values: StoresValues<S>) => Promise<T>,
    options?: AsyncStoreOptions<T>
  ): Loadable<T> => {
    const { store, subscribe, load, reload, state, reset } = asyncWritable(
      stores, mappingLoadFunction, undefined, options
    );

    return {
      store,
      subscribe,
      load,
      ...(reload && { reload }),
      ...(state && { state }),
      ...(reset && { reset }),
    };
  };
  \<close>
  \<open>spreadIf k v\<close> is \<^verbatim>\<open>...(v && { k: v })\<close>: a truthy \<open>v\<close> adds the property, a falsy one
  is spread itself and adds nothing.
\<close>

definition spreadIf :: "string \<Rightarrow> js_value \<Rightarrow> (string \<times> js_value) list" where
  "spreadIf k v = (if truthy v then [(k, v)] else [])"

text \<open>
  What \<^verbatim>\<open>asyncDerived\<close> does with the value \<open>w\<close> the underlying construction returned:
  the destructuring pattern, which throws on \<^verbatim>\<open>undefined\<close> and \<^verbatim>\<open>null\<close>, and the object
  literal, as the list of its properties.
\<close>

definition asyncDerived_result :: "js_value \<Rightarrow> (string \<times> js_value) list outcome" where
  "asyncDerived_result w =
     (if nullish w then Throws TypeError
      else Returns
        ([(''store'', member w ''store''),
          (''subscribe'', member w ''subscribe''),
          (''load'', member w ''load'')]
         @ spreadIf ''reload'' (member w ''reload'')
         @ spreadIf ''state'' (member w ''state'')
         @ spreadIf ''reset'' (member w ''reset'')))"

definition asyncDerived ::
  "'s \<Rightarrow> (js_value list \<Rightarrow> js_value promise) \<Rightarrow> AsyncStoreOptions option
     \<Rightarrow> (string \<times> js_value) list outcome \<times> container" where
  "asyncDerived stores mappingLoadFunction options =
     (let (w, c) = asyncWritable stores mappingLoadFunction None options in
      (asyncDerived_result w, c))"

section \<open>Properties of the state classifier\<close>

lemma stateTags_eq:
  "stateTags = [''LOADING'', ''RELOADING'', ''LOADED'', ''WRITING'', ''ERROR'']"
  by (simp add: stateTags_def)

lemma tag_in_stateTags: "tag t \<in> set stateTags"
  by (cases t) (simp_all add: stateTags_eq)

text \<open>
  Claim C8. For each of the five state tags the classifier sets the flag of that tag
  and clears the other four base flags; \<open>isPending\<close> holds exactly for LOADING and
  RELOADING, \<open>isSettled\<close> exactly for LOADED and ERROR.
\<close>

theorem getLoadState_five_tags:
  "getLoadState (tag t) =
     \<lparr> isLoading = (t = LOADING),
       isReloading = (t = RELOADING),
       isLoaded = (t = LOADED),
       isWriting = (t = WRITING),
       isError = (t = ERROR),
       isPending = (t = LOADING \<or> t = RELOADING),
       isSettled = (t = LOADED \<or> t = ERROR) \<rparr>"
  by (cases t) (simp_all add: getLoadState_def)

text \<open>
  Claim C10. For every string the classifier returns a flag record in which at most one
  of the five base flags is set, and for a string that is none of the five tags all
  seven flags are clear. (The function is total: its body has nothing that throws.)
\<close>

theorem getLoadState_any_string:
  "count_true (baseFlags (getLoadState s)) \<le> 1 \<and>
   (s \<notin> set stateTags \<longrightarrow>
      getLoadState s =
        \<lparr> isLoading = False, isReloading = False, isLoaded = False, isWriting = False,
          isError = False, isPending = False, isSettled = False \<rparr>)"
  by (auto simp: getLoadState_def baseFlags_def count_true_def stateTags_eq)

theorem getLoadState_any_string_witness:
  "''BOGUS'' \<notin> set stateTags \<and>
   count_true (baseFlags (getLoadState ''BOGUS'')) \<le> 1 \<and>
   getLoadState ''BOGUS'' =
     \<lparr> isLoading = False, isReloading = False, isLoaded = False, isWriting = False,
       isError = False, isPending = False, isSettled = False \<rparr>"
  using getLoadState_any_string [of "''BOGUS''"]
  by (simp add: stateTags_eq getLoadState_def baseFlags_def count_true_def)

text \<open>
  Claim C9, as the spec states it, makes an unrecognized tag a fatal error. The
  classifier applied to the string FOO, which is no tag, returns an ordinary flag
  record, the one with every flag clear.
\<close>

theorem getLoadState_unrecognized_counterexample:
  "''FOO'' \<notin> set stateTags \<and>
   getLoadState ''FOO'' =
     \<lparr> isLoading = False, isReloading = False, isLoaded = False, isWriting = False,
       isError = False, isPending = False, isSettled = False \<rparr>"
  by (simp add: getLoadState_def stateTags_eq)

text \<open>
  Claim C9, amended. The classifier tells exactly the five tags apart from every other
  string: it sets exactly one base flag when its argument is one of the five tags, and
  it returns the record with all seven flags clear exactly when its argument is not.
  Only the static type \<^verbatim>\<open>State\<close> keeps other strings out.
\<close>

theorem getLoadState_recognizes_five:
  "(count_true (baseFlags (getLoadState s)) = 1) = (s \<in> set stateTags) \<and>
   (getLoadState s =
      \<lparr> isLoading = False, isReloading = False, isLoaded = False, isWriting = False,
        isError = False, isPending = False, isSettled = False \<rparr>) = (s \<notin> set stateTags)"
  by (auto simp: getLoadState_def baseFlags_def count_true_def stateTags_eq)

section \<open>Properties of tryLoadValue\<close>

lemma tryLoadValue_loadCalls:
  "loadCalls (snd (tryLoadValue mappingLoadFunction vals c)) = loadCalls c @ [vals]"
  by (simp add: tryLoadValue_def Let_def setState_def logError_def
      split: promise.splits outcome.splits)

lemma tryLoadValue_ready:
  "ready (snd (tryLoadValue mappingLoadFunction vals c)) = ready c"
  by (simp add: tryLoadValue_def Let_def setState_def logError_def
      split: promise.splits outcome.splits)

lemma tryLoadValue_currentLoadPromise:
  "currentLoadPromise (snd (tryLoadValue mappingLoadFunction vals c)) = currentLoadPromise c"
  by (simp add: tryLoadValue_def Let_def setState_def logError_def
      split: promise.splits outcome.splits)

text \<open>A load that succeeds, or has not settled, only records the call.\<close>

lemma tryLoadValue_fulfilled:
  "mappingLoadFunction vals = Fulfilled v \<Longrightarrow>
   tryLoadValue mappingLoadFunction vals c = (Fulfilled v, c\<lparr> loadCalls := loadCalls c @ [vals] \<rparr>)"
  by (simp add: tryLoadValue_def Let_def)

lemma tryLoadValue_pending:
  "mappingLoadFunction vals = Pending \<Longrightarrow>
   tryLoadValue mappingLoadFunction vals c = (Pending, c\<lparr> loadCalls := loadCalls c @ [vals] \<rparr>)"
  by (simp add: tryLoadValue_def Let_def)

text \<open>
  A failure whose \<^verbatim>\<open>name\<close> can be read and is not AbortError is logged, moves the
  tracked state to ERROR and is thrown again.
\<close>

lemma tryLoadValue_failure:
  assumes "mappingLoadFunction vals = Rejected e"
    and "getProp e ''name'' = Returns n"
    and "n \<noteq> JSStr ''AbortError''"
  shows "tryLoadValue mappingLoadFunction vals c =
           (Rejected e, setState ERROR (logError e (c\<lparr> loadCalls := loadCalls c @ [vals] \<rparr>)))"
  using assms by (simp add: tryLoadValue_def Let_def)

lemma tryLoadValue_failure_effects:
  assumes "mappingLoadFunction vals = Rejected e"
    and "getProp e ''name'' = Returns n"
    and "n \<noteq> JSStr ''AbortError''"
  shows "fst (tryLoadValue mappingLoadFunction vals c) = Rejected e"
    and "logged (snd (tryLoadValue mappingLoadFunction vals c)) = logged c @ [e]"
    and "loadState (snd (tryLoadValue mappingLoadFunction vals c)) =
           map_option (\<lambda>_. getLoadState ''ERROR'') (loadState c)"
  using assms tryLoadValue_failure [of mappingLoadFunction vals e n c]
  by (simp_all add: setState_def logError_def)

text \<open>
  Claim C3. When the mapping function fails with the cancellation indicator, an error
  whose \<^verbatim>\<open>name\<close> is AbortError, the load leaves the tracked state as it was, does not
  invoke the logging hook, and throws the same error again.
\<close>

theorem tryLoadValue_cancellation_silent:
  assumes "mappingLoadFunction vals = Rejected e"
    and "getProp e ''name'' = Returns (JSStr ''AbortError'')"
  shows "fst (tryLoadValue mappingLoadFunction vals c) = Rejected e \<and>
         loadState (snd (tryLoadValue mappingLoadFunction vals c)) = loadState c \<and>
         logged (snd (tryLoadValue mappingLoadFunction vals c)) = logged c"
  using assms by (simp add: tryLoadValue_def Let_def)

theorem tryLoadValue_cancellation_silent_witness:
  "(\<lambda>vals. Rejected (JSObj [(''name'', JSStr ''AbortError'')])) [] =
     (Rejected (JSObj [(''name'', JSStr ''AbortError'')]) :: js_value promise) \<and>
   getProp (JSObj [(''name'', JSStr ''AbortError'')]) ''name'' = Returns (JSStr ''AbortError'') \<and>
   fst (tryLoadValue (\<lambda>vals. Rejected (JSObj [(''name'', JSStr ''AbortError'')])) []
          (snd (asyncWritable () (\<lambda>vals. Rejected (JSObj [(''name'', JSStr ''AbortError'')])) None
                  (Some \<lparr> reloadable = False, trackState = True, initial = JSUndefined \<rparr>))))
     = Rejected (JSObj [(''name'', JSStr ''AbortError'')]) \<and>
   loadState (snd (tryLoadValue (\<lambda>vals. Rejected (JSObj [(''name'', JSStr ''AbortError'')])) []
          (snd (asyncWritable () (\<lambda>vals. Rejected (JSObj [(''name'', JSStr ''AbortError'')])) None
                  (Some \<lparr> reloadable = False, trackState = True, initial = JSUndefined \<rparr>)))))
     = Some (getLoadState ''LOADING'') \<and>
   logged (snd (tryLoadValue (\<lambda>vals. Rejected (JSObj [(''name'', JSStr ''AbortError'')])) []
          (snd (asyncWritable () (\<lambda>vals. Rejected (JSObj [(''name'', JSStr ''AbortError'')])) None
                  (Some \<lparr> reloadable = False, trackState = True, initial = JSUndefined \<rparr>)))))
     = []"
proof -
  let ?e = "JSObj [(''name'', JSStr ''AbortError'')]"
  let ?f = "\<lambda>vals :: js_value list. (Rejected ?e :: js_value promise)"
  have rejected: "?f [] = Rejected ?e"
    by simp
  have name: "getProp ?e ''name'' = Returns (JSStr ''AbortError'')"
    by (simp add: getProp_def nullish_def)
  let ?c = "snd (asyncWritable () ?f None
                  (Some \<lparr> reloadable = False, trackState = True, initial = JSUndefined \<rparr>))"
  have start: "loadState ?c = Some (getLoadState ''LOADING'')" "logged ?c = []"
    by (simp_all add: asyncWritable_def)
  show ?thesis
    using tryLoadValue_cancellation_silent [of ?f "[]" ?e ?c, OF rejected name] name start
    by simp
qed

text \<open>
  Claim C4, at a mapping function that rejects with no reason
  (\<^verbatim>\<open>() => Promise.reject()\<close>; the caught value is \<^verbatim>\<open>undefined\<close>), with state tracking
  on. Reading \<^verbatim>\<open>e.name\<close> throws in the \<^verbatim>\<open>catch\<close> block: the caller gets that TypeError
  and not the value the mapping function failed with, nothing is logged, and the tracked
  state stays LOADING.
\<close>

theorem tryLoadValue_rejected_with_undefined:
  "tryLoadValue (\<lambda>vals. Rejected JSUndefined) []
     (snd (asyncWritable () (\<lambda>vals. Rejected JSUndefined) None
             (Some \<lparr> reloadable = False, trackState = True, initial = JSUndefined \<rparr>)))
   = (Rejected TypeError,
      \<lparr> loadState = Some (getLoadState ''LOADING''), ready = False,
        currentLoadPromise = None, flagged = 1, logged = [], loadCalls = [[]],
        writeCalls = [] \<rparr>)"
  by (simp add: tryLoadValue_def asyncWritable_def getProp_def nullish_def)

section \<open>Properties of the construction and of the first-subscription notifier\<close>

lemma asyncWritable_value: "fst (asyncWritable stores mappingLoadFunction mappingWriteFunction options) = JSUndefined"
  by (simp add: asyncWritable_def Let_def)

lemma asyncWritable_container:
  "snd (asyncWritable stores mappingLoadFunction mappingWriteFunction options) =
     \<lparr> loadState =
         (if trackState (case options of None \<Rightarrow> emptyOptions | Some given \<Rightarrow> given)
          then Some (getLoadState ''LOADING'') else None),
       ready = False, currentLoadPromise = None, flagged = 1, logged = [],
       loadCalls = [], writeCalls = [] \<rparr>"
  by (simp add: asyncWritable_def Let_def)

text \<open>
  Claim C6, as the spec states it, has the ready flag guard the initial load. The
  notifier run a second time, when its first run has set the flag, calls the mapping
  function again: two runs on a fresh container leave two calls.
\<close>

theorem onFirstSubscribtion_unguarded_counterexample:
  "ready (onFirstSubscribtion (\<lambda>stores. Fulfilled [JSNum 1]) () (\<lambda>vals. Fulfilled (JSNum 5))
            (snd (asyncWritable () (\<lambda>vals. Fulfilled (JSNum 5)) None None))) \<and>
   loadCalls
     (onFirstSubscribtion (\<lambda>stores. Fulfilled [JSNum 1]) () (\<lambda>vals. Fulfilled (JSNum 5))
        (onFirstSubscribtion (\<lambda>stores. Fulfilled [JSNum 1]) () (\<lambda>vals. Fulfilled (JSNum 5))
           (snd (asyncWritable () (\<lambda>vals. Fulfilled (JSNum 5)) None None))))
     = [[JSNum 1], [JSNum 1]]"
  by (simp add: onFirstSubscribtion_def tryLoadValue_def asyncWritable_def Let_def)

text \<open>
  Claim C6, amended. Constructing a container performs no loading work: the mapping
  function has not been called and the ready flag is clear. Each run of the
  first-subscription notifier whose dependencies load sets the ready flag and calls the
  mapping function exactly once, with the dependency values, whatever the flag was
  before: the flag is set and never tested. When the dependencies do not load, the run
  calls nothing.
\<close>

theorem onFirstSubscribtion_loads_once_per_run:
  assumes "loadAll stores = Fulfilled vals"
  shows "loadCalls (snd (asyncWritable stores mappingLoadFunction mappingWriteFunction options)) = [] \<and>
         \<not> ready (snd (asyncWritable stores mappingLoadFunction mappingWriteFunction options)) \<and>
         ready (onFirstSubscribtion loadAll stores mappingLoadFunction c) \<and>
         loadCalls (onFirstSubscribtion loadAll stores mappingLoadFunction c) = loadCalls c @ [vals] \<and>
         (\<forall>e. onFirstSubscribtion (\<lambda>stores. Rejected e) stores mappingLoadFunction c = c) \<and>
         onFirstSubscribtion (\<lambda>stores. Pending) stores mappingLoadFunction c = c"
proof -
  have built: "loadCalls (snd (asyncWritable stores mappingLoadFunction mappingWriteFunction options)) = []"
    "\<not> ready (snd (asyncWritable stores mappingLoadFunction mappingWriteFunction options))"
    by (simp_all add: asyncWritable_container)
  have run: "onFirstSubscribtion loadAll stores mappingLoadFunction c =
               snd (tryLoadValue mappingLoadFunction vals (c\<lparr> ready := True \<rparr>))"
    using assms by (simp add: onFirstSubscribtion_def)
  have flag: "ready (onFirstSubscribtion loadAll stores mappingLoadFunction c)"
    by (simp add: run tryLoadValue_ready)
  have calls: "loadCalls (onFirstSubscribtion loadAll stores mappingLoadFunction c) = loadCalls c @ [vals]"
    by (simp add: run tryLoadValue_loadCalls)
  have idle: "\<forall>e. onFirstSubscribtion (\<lambda>stores. Rejected e) stores mappingLoadFunction c = c"
    "onFirstSubscribtion (\<lambda>stores. Pending) stores mappingLoadFunction c = c"
    by (simp_all add: onFirstSubscribtion_def)
  from built flag calls idle show ?thesis
    by simp
qed

theorem onFirstSubscribtion_loads_once_per_run_witness:
  "(\<lambda>stores :: unit. (Fulfilled [JSNum 1, JSNum 2] :: js_value list promise)) () = Fulfilled [JSNum 1, JSNum 2] \<and>
   loadCalls (snd (asyncWritable () (\<lambda>vals. Rejected (JSStr ''offline'')) None None)) = [] \<and>
   \<not> ready (snd (asyncWritable () (\<lambda>vals. Rejected (JSStr ''offline'')) None None)) \<and>
   ready (onFirstSubscribtion (\<lambda>stores. Fulfilled [JSNum 1, JSNum 2]) ()
            (\<lambda>vals. Rejected (JSStr ''offline''))
            (snd (asyncWritable () (\<lambda>vals. Rejected (JSStr ''offline'')) None None))) \<and>
   loadCalls (onFirstSubscribtion (\<lambda>stores. Fulfilled [JSNum 1, JSNum 2]) ()
            (\<lambda>vals. Rejected (JSStr ''offline''))
            (snd (asyncWritable () (\<lambda>vals. Rejected (JSStr ''offline'')) None None)))
     = [[JSNum 1, JSNum 2]]"
proof -
  let ?loadAll = "\<lambda>stores :: unit. (Fulfilled [JSNum 1, JSNum 2] :: js_value list promise)"
  let ?f = "\<lambda>vals :: js_value list. (Rejected (JSStr ''offline'') :: js_value promise)"
  let ?c = "snd (asyncWritable () ?f None None)"
  have loaded: "?loadAll () = Fulfilled [JSNum 1, JSNum 2]"
    by simp
  have fresh: "loadCalls ?c = []"
    by (simp add: asyncWritable_container)
  show ?thesis
    using onFirstSubscribtion_loads_once_per_run
            [of ?loadAll "()" "[JSNum 1, JSNum 2]" ?f None None ?c, OF loaded] fresh
    by simp
qed

section \<open>Properties of asyncDerived\<close>

text \<open>
  Claim C7, at any call of \<^verbatim>\<open>asyncDerived\<close>. The underlying call of \<^verbatim>\<open>asyncWritable\<close>
  returns \<^verbatim>\<open>undefined\<close>, the destructuring pattern throws a TypeError on it, and the
  object literal is never reached: \<^verbatim>\<open>asyncDerived\<close> returns no record, so none with
  \<^verbatim>\<open>store\<close>, \<^verbatim>\<open>subscribe\<close> and \<^verbatim>\<open>load\<close>.
\<close>

theorem asyncDerived_returns_no_record:
  "fst (asyncWritable stores mappingLoadFunction None options) = JSUndefined \<and>
   asyncDerived_result (fst (asyncWritable stores mappingLoadFunction None options))
     = Throws TypeError \<and>
   fst (asyncDerived stores mappingLoadFunction options) = Throws TypeError"
  by (simp add: asyncDerived_def asyncWritable_def Let_def asyncDerived_result_def nullish_def)

section \<open>What the construction leaves out\<close>

text \<open>
  Claim C1, at any call of \<^verbatim>\<open>asyncWritable\<close>. The call returns \<^verbatim>\<open>undefined\<close>, so
  reading its \<^verbatim>\<open>load\<close> member throws a TypeError: there is no \<^verbatim>\<open>load\<close> to call, once or
  concurrently. \<^verbatim>\<open>currentLoadPromise\<close> is never assigned, by the construction or by a
  load, and \<^verbatim>\<open>tryLoadValue\<close>, the only caller of the mapping function, calls it every
  time it runs: two loads of the same dependency values make two calls, whether or not
  the first has settled.
\<close>

theorem asyncWritable_returns_no_load:
  "fst (asyncWritable stores mappingLoadFunction mappingWriteFunction options) = JSUndefined \<and>
   getProp (fst (asyncWritable stores mappingLoadFunction mappingWriteFunction options)) ''load''
     = Throws TypeError \<and>
   currentLoadPromise (snd (asyncWritable stores mappingLoadFunction mappingWriteFunction options))
     = None \<and>
   currentLoadPromise (snd (tryLoadValue mappingLoadFunction vals c)) = currentLoadPromise c \<and>
   loadCalls (snd (tryLoadValue mappingLoadFunction vals
                     (snd (tryLoadValue mappingLoadFunction vals c))))
     = loadCalls c @ [vals, vals]"
  by (simp add: asyncWritable_value asyncWritable_container getProp_def nullish_def
      tryLoadValue_currentLoadPromise tryLoadValue_loadCalls)


text \<open>
  Claim C5, at any call of \<^verbatim>\<open>asyncWritable\<close> with a write function. The call returns
  \<^verbatim>\<open>undefined\<close>, so reading its \<^verbatim>\<open>set\<close> or \<^verbatim>\<open>update\<close> member throws a TypeError. The
  construction does not call the write function, and the tracked state it leaves is not
  WRITING.
\<close>

theorem asyncWritable_returns_no_set:
  "fst (asyncWritable stores mappingLoadFunction (Some mappingWriteFunction) options) = JSUndefined \<and>
   getProp (fst (asyncWritable stores mappingLoadFunction (Some mappingWriteFunction) options)) ''set''
     = Throws TypeError \<and>
   getProp (fst (asyncWritable stores mappingLoadFunction (Some mappingWriteFunction) options)) ''update''
     = Throws TypeError \<and>
   writeCalls (snd (asyncWritable stores mappingLoadFunction (Some mappingWriteFunction) options)) = [] \<and>
   loadState (snd (asyncWritable stores mappingLoadFunction (Some mappingWriteFunction) options))
     \<noteq> Some (getLoadState ''WRITING'')"
  by (simp add: asyncWritable_value asyncWritable_container getProp_def nullish_def
      getLoadState_def)

end
